theory Spec2Isabelle
  imports Main "HOL-Library.Char_ord" "HOL-Library.List_Lexorder"
begin

section \<open>Graph traits (traits.go)\<close>

text \<open>
  The struct \<open>Traits\<close> holds four booleans. A functional option is a Go value of type
  \<open>func(*Traits)\<close> that mutates the struct behind the pointer; here it is a function from
  the struct before the call to the struct after it.
\<close>

record Traits =
  IsDirected :: bool
  IsAcyclic :: bool
  IsWeighted :: bool
  IsRooted :: bool

type_synonym trait_option = "Traits \<Rightarrow> Traits"

definition Directed :: trait_option where
  "Directed t = t\<lparr>IsDirected := True\<rparr>"

definition Acyclic :: trait_option where
  "Acyclic t = t\<lparr>IsAcyclic := True\<rparr>"

definition Weighted :: trait_option where
  "Weighted t = t\<lparr>IsWeighted := True\<rparr>"

definition Rooted :: trait_option where
  "Rooted t = t\<lparr>IsRooted := True\<rparr>"

text \<open>\<open>Tree\<close> calls \<open>Acyclic()(t)\<close> and then \<open>Rooted()(t)\<close> on the same pointer.\<close>

definition Tree :: trait_option where
  "Tree t = Rooted (Acyclic t)"

text \<open>
  A caller applies a sequence of options to one struct, one after the other
  (\<open>for _, option := range options { option(&t) }\<close>).
\<close>

definition apply_options :: "trait_option list \<Rightarrow> Traits \<Rightarrow> Traits" where
  "apply_options fs t = fold (\<lambda>f s. f s) fs t"

definition trait_options :: "trait_option set" where
  "trait_options = {Directed, Acyclic, Weighted, Rooted, Tree}"

definition no_traits :: Traits where
  "no_traits = \<lparr>IsDirected = False, IsAcyclic = False, IsWeighted = False, IsRooted = False\<rparr>"

section \<open>Data of the DOT export (package draw)\<close>

text \<open>
  Errors are values. \<open>External\<close> is an error made by a collaborator (the graph, the
  sink); \<open>Wrapped msg e\<close> is what \<open>fmt.Errorf(msg + "%w", e)\<close> builds.
\<close>

datatype parse_error =
  UnclosedAction | BadAction string | UndefinedVariable string | UnexpectedEnd | UnexpectedEOF

datatype exec_error = NoSuchField string | NoSuchVariable string | CannotRange | CannotPrint

datatype error =
  External string
| TemplateParse parse_error
| TemplateExec exec_error
| Wrapped string error

text \<open>
  Vertex keys have a type \<open>K comparable\<close>. The export only stores a key in an
  \<open>interface{}\<close>, tests it in the template's \<open>if\<close> and prints it, so a key is one of
  the comparable kinds on which these differ: an integer, a string, a boolean, or a struct of
  such fields.
\<close>

datatype key = KInt int | KString string | KBool bool | KStruct "key list"


text \<open>
  A Go \<open>map[string]string\<close> is an association list read through \<open>map_of\<close>; the nil
  map and the empty map are both \<open>[]\<close>. The order of the list is no part of the map.
\<close>

type_synonym attributes = "(string \<times> string) list"

text \<open>
  Modelled from the spec: the type \<open>graph.Edge\<close> and the interface \<open>graph.Graph\<close> are
  declared outside the given source. Of an edge the export reads \<open>Properties.Weight\<close> (an
  integer) and \<open>Properties.Attributes\<close> (a mapping from attribute name to value); of a
  graph it calls \<open>Traits()\<close> and \<open>AdjacencyMap()\<close>, which returns an error or, for every
  vertex, the adjacent vertices with the edge to each. The weight is a Go \<open>int\<close>; it is
  only copied and printed, so it is an unbounded integer here.
\<close>

record EdgeProperties =
  EdgeWeight :: int
  EdgeAttributes :: attributes

record Edge =
  Properties :: EdgeProperties

text \<open>
  An adjacency map \<open>map[K]map[K]Edge[K]\<close> is the list of its entries in the order in which
  the \<open>range\<close> loops of one run visit them (Go leaves that order open). A well-formed one
  has every key once, on both levels.
\<close>

type_synonym adjacency_map = "(key \<times> (key \<times> Edge) list) list"


record Graph =
  GraphTraits :: Traits
  AdjacencyMap :: "error + adjacency_map"

text \<open>
  The fields \<open>Source\<close> and \<open>Target\<close> of a statement are \<open>interface{}\<close>: \<open>None\<close> is the
  nil interface of a field that was never set.
\<close>

record statement =
  Source :: "key option"
  Target :: "key option"
  Weight :: int
  Attributes :: attributes

record description =
  GraphType :: string
  EdgeOperator :: string
  Statements :: "statement list"

section \<open>Building the description: generateDOT\<close>

text \<open>The inner loop: one statement is appended for each adjacency of the vertex.\<close>

fun append_edges :: "key \<Rightarrow> (key \<times> Edge) list \<Rightarrow> description \<Rightarrow> description" where
  "append_edges vertex [] desc = desc"
| "append_edges vertex ((adjacency, edge) # rest) desc =
     append_edges vertex rest
       (desc\<lparr>Statements := Statements desc @
          [\<lparr>Source = Some vertex, Target = Some adjacency,
            Weight = EdgeWeight (Properties edge),
            Attributes = EdgeAttributes (Properties edge)\<rparr>]\<rparr>)"

text \<open>
  The outer loop: a vertex with no adjacencies gets one statement with only \<open>Source\<close> set
  (the other fields keep their zero values), and the loop goes on to the next vertex.
\<close>

fun append_vertices :: "adjacency_map \<Rightarrow> description \<Rightarrow> description" where
  "append_vertices [] desc = desc"
| "append_vertices ((vertex, adjacencies) # rest) desc =
     (if length adjacencies = 0
      then append_vertices rest
        (desc\<lparr>Statements := Statements desc @
           [\<lparr>Source = Some vertex, Target = None, Weight = 0, Attributes = []\<rparr>]\<rparr>)
      else append_vertices rest (append_edges vertex adjacencies desc))"

definition generateDOT :: "Graph \<Rightarrow> description \<times> error option" where
  "generateDOT g =
     (let desc = \<lparr>GraphType = ''graph'', EdgeOperator = ''--'', Statements = []\<rparr>;
          desc = (if IsDirected (GraphTraits g)
                  then desc\<lparr>GraphType := ''digraph'', EdgeOperator := ''->''\<rparr>
                  else desc)
      in case AdjacencyMap g of
           Inl err \<Rightarrow> (desc, Some err)
         | Inr adjacencyMap \<Rightarrow> (append_vertices adjacencyMap desc, None))"

section \<open>The template and the part of text/template it uses\<close>

text \<open>The constant \<open>dotTemplate\<close>, byte for byte; the third line starts with a tab.\<close>

definition dotTemplate :: string where
  \<open>dotTemplate =
     ''strict {{.GraphType}} {\<newline>'' @
     ''{{range $s := .Statements}}\<newline>'' @
     [CHR 0x09] @ ''{{.Source}} {{if .Target}}{{$.EdgeOperator}} {{.Target}} [ '' @
       ''{{range $k, $v := .Attributes}}{{$k}}="{{$v}}", {{end}} weight={{.Weight}} ]{{end}};\<newline>'' @
     ''{{end}}\<newline>'' @
     ''}\<newline>''\<close>

text \<open>
  The template engine is Go's standard library. What follows is the fragment of it
  that \<open>dotTemplate\<close> needs, after the package documentation: text, actions that print a
  field chain of the dot or of a variable, \<open>if\<close>, \<open>range\<close> with zero, one or two
  variables, and \<open>end\<close>. Whatever lies outside the fragment is an error here, at parse
  time or at execution time, so success below never rests on a feature left out.
\<close>

datatype item = Text string | Action string

text \<open>
  Lexing: text runs up to the next \<open>{{\<close>, an action up to the next \<open>}}\<close>. The
  accumulator holds the current piece, reversed.
\<close>

fun lex :: "bool \<Rightarrow> string \<Rightarrow> string \<Rightarrow> parse_error + item list" where
  "lex in_action acc [] =
     (if in_action then Inl UnclosedAction
      else Inr (if acc = [] then [] else [Text (rev acc)]))"
| "lex in_action acc [c] =
     (if in_action then Inl UnclosedAction else Inr [Text (rev (c # acc))])"
| "lex in_action acc (c # d # cs) =
     (if \<not> in_action \<and> c = CHR ''{'' \<and> d = CHR ''{'' then
        (case lex True [] cs of
           Inl e \<Rightarrow> Inl e
         | Inr items \<Rightarrow> Inr ((if acc = [] then [] else [Text (rev acc)]) @ items))
      else if in_action \<and> c = CHR ''}'' \<and> d = CHR ''}'' then
        (case lex False [] cs of
           Inl e \<Rightarrow> Inl e
         | Inr items \<Rightarrow> Inr (Action (rev acc) # items))
      else lex in_action (c # acc) (d # cs))"

text \<open>The words of an action: split at spaces, a comma is a word of its own.\<close>

fun action_words :: "string \<Rightarrow> string \<Rightarrow> string list" where
  "action_words acc [] = (if acc = [] then [] else [rev acc])"
| "action_words acc (c # cs) =
     (if c = CHR '' '' then (if acc = [] then [] else [rev acc]) @ action_words [] cs
      else if c = CHR '','' then (if acc = [] then [] else [rev acc]) @ [[c]] @ action_words [] cs
      else action_words (c # acc) cs)"

text \<open>Splitting \<open>A.B.C\<close> at the dots.\<close>

fun split_dots :: "string \<Rightarrow> string \<Rightarrow> string list" where
  "split_dots acc [] = [rev acc]"
| "split_dots acc (c # cs) =
     (if c = CHR ''.'' then rev acc # split_dots [] cs else split_dots (c # acc) cs)"

definition is_alnum :: "char \<Rightarrow> bool" where
  "is_alnum c = (c \<in> set ''abcdefghijklmnopqrstuvwxyzABCDEFGHIJKLMNOPQRSTUVWXYZ0123456789_'')"

definition is_name :: "string \<Rightarrow> bool" where
  "is_name w = (w \<noteq> [] \<and> list_all is_alnum w)"

text \<open>
  An expression is a field chain on the dot (\<open>.A.B\<close>) or on a variable (\<open>$x.A.B\<close>; the
  variable \<open>$\<close> has the empty name).
\<close>

datatype expr = DotFields "string list" | VarFields string "string list"

fun parse_expr :: "string \<Rightarrow> parse_error + expr" where
  "parse_expr [] = Inl (BadAction [])"
| "parse_expr (c # cs) =
     (if c = CHR ''.'' then
        (if cs = [] then Inr (DotFields [])
         else if list_all is_name (split_dots [] cs) then Inr (DotFields (split_dots [] cs))
         else Inl (BadAction (c # cs)))
      else if c = CHR ''$'' then
        (case split_dots [] cs of
           [] \<Rightarrow> Inl (BadAction (c # cs))
         | v # names \<Rightarrow>
             if (v = [] \<or> is_name v) \<and> list_all is_name names
             then Inr (VarFields v names) else Inl (BadAction (c # cs)))
      else Inl (BadAction (c # cs)))"

datatype action = APrint expr | AIf expr | ARange "string list" expr | AEnd

text \<open>A variable that \<open>range\<close> declares: \<open>$\<close> and a name.\<close>

fun parse_decl :: "string \<Rightarrow> string option" where
  "parse_decl [] = None"
| "parse_decl (c # cs) = (if c = CHR ''$'' \<and> is_name cs then Some cs else None)"

definition parse_range :: "string list \<Rightarrow> parse_error + action" where
  "parse_range ws =
     (case ws of
        [e] \<Rightarrow> (case parse_expr e of Inl err \<Rightarrow> Inl err | Inr x \<Rightarrow> Inr (ARange [] x))
      | [v, a, e] \<Rightarrow>
          (case (parse_decl v, parse_expr e) of
             (Some x, Inr y) \<Rightarrow>
               if a = '':='' then Inr (ARange [x] y) else Inl (BadAction (concat ws))
           | (_, Inl err) \<Rightarrow> Inl err
           | _ \<Rightarrow> Inl (BadAction (concat ws)))
      | [k, c, v, a, e] \<Rightarrow>
          (case (parse_decl k, parse_decl v, parse_expr e) of
             (Some x, Some y, Inr z) \<Rightarrow>
               if c = '','' \<and> a = '':='' then Inr (ARange [x, y] z)
               else Inl (BadAction (concat ws))
           | (_, _, Inl err) \<Rightarrow> Inl err
           | _ \<Rightarrow> Inl (BadAction (concat ws)))
      | _ \<Rightarrow> Inl (BadAction (concat ws)))"

definition parse_action :: "string \<Rightarrow> parse_error + action" where
  "parse_action a =
     (case action_words [] a of
        [] \<Rightarrow> Inl (BadAction a)
      | w # ws \<Rightarrow>
          if w = ''end'' then (if ws = [] then Inr AEnd else Inl (BadAction a))
          else if w = ''if'' then
            (case ws of
               [e] \<Rightarrow> (case parse_expr e of Inl err \<Rightarrow> Inl err | Inr x \<Rightarrow> Inr (AIf x))
             | _ \<Rightarrow> Inl (BadAction a))
          else if w = ''range'' then parse_range ws
          else if ws = [] then
            (case parse_expr w of Inl err \<Rightarrow> Inl err | Inr x \<Rightarrow> Inr (APrint x))
          else Inl (BadAction a))"

datatype node =
  TextNode string
| PrintNode expr
| IfNode expr "node list"
| RangeNode "string list" expr "node list"

text \<open>
  The parser keeps the variables in scope (a use of an undeclared variable is a parse
  error in Go) and a stack of the open \<open>if\<close> and \<open>range\<close> actions, each with the nodes and
  the scope around it. Node lists under construction are reversed.
\<close>

datatype frame = IfFrame expr | RangeFrame "string list" expr

fun expr_in_scope :: "string list \<Rightarrow> expr \<Rightarrow> bool" where
  "expr_in_scope scope (DotFields names) = True"
| "expr_in_scope scope (VarFields v names) = (v \<in> set scope)"

fun close_frame :: "frame \<Rightarrow> node list \<Rightarrow> node" where
  "close_frame (IfFrame e) body = IfNode e body"
| "close_frame (RangeFrame vars e) body = RangeNode vars e body"

fun build :: "(frame \<times> node list \<times> string list) list \<Rightarrow> string list \<Rightarrow> node list \<Rightarrow>
    item list \<Rightarrow> parse_error + node list" where
  "build stack scope acc [] = (if stack = [] then Inr (rev acc) else Inl UnexpectedEOF)"
| "build stack scope acc (Text t # items) = build stack scope (TextNode t # acc) items"
| "build stack scope acc (Action a # items) =
     (case parse_action a of
        Inl err \<Rightarrow> Inl err
      | Inr (APrint e) \<Rightarrow>
          if expr_in_scope scope e then build stack scope (PrintNode e # acc) items
          else Inl (UndefinedVariable a)
      | Inr (AIf e) \<Rightarrow>
          if expr_in_scope scope e then build ((IfFrame e, acc, scope) # stack) scope [] items
          else Inl (UndefinedVariable a)
      | Inr (ARange vars e) \<Rightarrow>
          if expr_in_scope scope e
          then build ((RangeFrame vars e, acc, scope) # stack) (vars @ scope) [] items
          else Inl (UndefinedVariable a)
      | Inr AEnd \<Rightarrow>
          (case stack of
             [] \<Rightarrow> Inl UnexpectedEnd
           | (f, outer, outer_scope) # stack' \<Rightarrow>
               build stack' outer_scope (close_frame f (rev acc) # outer) items))"

definition parse_template :: "string \<Rightarrow> parse_error + node list" where
  "parse_template text =
     (case lex False [] text of Inl err \<Rightarrow> Inl err | Inr items \<Rightarrow> build [] [[]] [] items)"

text \<open>
  The values a template sees. \<open>VNil\<close> is the nil interface; a key held in an
  \<open>interface{}\<close> field is seen as the key itself.
\<close>

datatype val =
  VNil
| VKey key
| VInt int
| VStr string
| VStruct "(string \<times> val) list"
| VSlice "val list"
| VMap "(string \<times> val) list"

text \<open>Decimal printing of integers, as \<open>fmt\<close> prints them.\<close>

fun show_nat :: "nat \<Rightarrow> string" where
  "show_nat n =
     (if n < 10 then [''0123456789'' ! n]
      else show_nat (n div 10) @ [''0123456789'' ! (n mod 10)])"

declare show_nat.simps [simp del]

definition show_int :: "int \<Rightarrow> string" where
  "show_int i = (if i < 0 then CHR ''-'' # show_nat (nat (- i)) else show_nat (nat i))"

fun join_spaces :: "string list \<Rightarrow> string" where
  "join_spaces [] = []"
| "join_spaces [x] = x"
| "join_spaces (x # y # ys) = x @ '' '' @ join_spaces (y # ys)"

text \<open>The default format of a key: a struct prints its fields in braces.\<close>

fun show_key :: "key \<Rightarrow> string" where
  "show_key (KInt i) = show_int i"
| "show_key (KString s) = s"
| "show_key (KBool b) = (if b then ''true'' else ''false'')"
| "show_key (KStruct fs) = ''{'' @ join_spaces (map show_key fs) @ ''}''"

text \<open>
  Truth of a value in \<open>if\<close>: the empty values are false, 0, a nil interface, and a
  string, slice or map of length zero. A struct is never empty.
\<close>

fun key_truth :: "key \<Rightarrow> bool" where
  "key_truth (KInt i) = (i \<noteq> 0)"
| "key_truth (KString s) = (s \<noteq> [])"
| "key_truth (KBool b) = b"
| "key_truth (KStruct fs) = True"

fun truth :: "val \<Rightarrow> bool" where
  "truth VNil = False"
| "truth (VKey k) = key_truth k"
| "truth (VInt i) = (i \<noteq> 0)"
| "truth (VStr s) = (s \<noteq> [])"
| "truth (VStruct fs) = True"
| "truth (VSlice xs) = (xs \<noteq> [])"
| "truth (VMap m) = (m \<noteq> [])"

fun print_val :: "val \<Rightarrow> exec_error + string" where
  "print_val VNil = Inr ''<no value>''"
| "print_val (VKey k) = Inr (show_key k)"
| "print_val (VInt i) = Inr (show_int i)"
| "print_val (VStr s) = Inr s"
| "print_val v = Inl CannotPrint"

fun eval_fields :: "val \<Rightarrow> string list \<Rightarrow> exec_error + val" where
  "eval_fields v [] = Inr v"
| "eval_fields (VStruct fs) (n # ns) =
     (case map_of fs n of None \<Rightarrow> Inl (NoSuchField n) | Some v \<Rightarrow> eval_fields v ns)"
| "eval_fields v (n # ns) = Inl (NoSuchField n)"

type_synonym env = "(string \<times> val) list"

fun eval_expr :: "env \<Rightarrow> val \<Rightarrow> expr \<Rightarrow> exec_error + val" where
  "eval_expr env dot (DotFields ns) = eval_fields dot ns"
| "eval_expr env dot (VarFields v ns) =
     (case map_of env v of None \<Rightarrow> Inl (NoSuchVariable v) | Some x \<Rightarrow> eval_fields x ns)"

text \<open>
  The entries of a map in the order \<open>range\<close> visits them: for string keys that is sorted
  key order, each key once.
\<close>

definition map_items :: "(string \<times> 'a) list \<Rightarrow> (string \<times> 'a) list" where
  "map_items m =
     List.map_filter (\<lambda>k. map_option (Pair k) (map_of m k)) (sort (remdups (map fst m)))"

text \<open>What \<open>range\<close> iterates over: pairs of index or key, and element.\<close>

fun range_elems :: "val \<Rightarrow> exec_error + (val \<times> val) list" where
  "range_elems (VSlice xs) = Inr (zip (map VInt (map int [0..<length xs])) xs)"
| "range_elems (VMap m) = Inr (map (\<lambda>(k, v). (VStr k, v)) (map_items m))"
| "range_elems v = Inl CannotRange"

text \<open>
  One variable takes the element, two take the index or key and the element. The parser
  admits no more than two.
\<close>

fun bind_vars :: "string list \<Rightarrow> val \<Rightarrow> val \<Rightarrow> env \<Rightarrow> env" where
  "bind_vars [] k x env = env"
| "bind_vars [v] k x env = (v, x) # env"
| "bind_vars (kv # v # vs) k x env = (v, x) # (kv, k) # env"

text \<open>
  Execution yields the chunks handed to the writer, one per \<open>Write\<close> call and in that
  order, and the error that stopped it, if any.
\<close>

type_synonym exec_output = "string list \<times> exec_error option"

fun seq_output :: "exec_output \<Rightarrow> exec_output \<Rightarrow> exec_output" where
  "seq_output (cs, Some e) r = (cs, Some e)"
| "seq_output (cs, None) (ds, r) = (cs @ ds, r)"

fun exec_node :: "env \<Rightarrow> val \<Rightarrow> node \<Rightarrow> exec_output"
  and exec_nodes :: "env \<Rightarrow> val \<Rightarrow> node list \<Rightarrow> exec_output" where
  "exec_node env dot (TextNode t) = ([t], None)"
| "exec_node env dot (PrintNode e) =
     (case eval_expr env dot e of
        Inl err \<Rightarrow> ([], Some err)
      | Inr v \<Rightarrow> (case print_val v of Inl err \<Rightarrow> ([], Some err) | Inr s \<Rightarrow> ([s], None)))"
| "exec_node env dot (IfNode e body) =
     (case eval_expr env dot e of
        Inl err \<Rightarrow> ([], Some err)
      | Inr v \<Rightarrow> if truth v then exec_nodes env dot body else ([], None))"
| "exec_node env dot (RangeNode vars e body) =
     (case eval_expr env dot e of
        Inl err \<Rightarrow> ([], Some err)
      | Inr v \<Rightarrow>
          (case range_elems v of
             Inl err \<Rightarrow> ([], Some err)
           | Inr elems \<Rightarrow>
               foldr (\<lambda>(k, x) rest. seq_output (exec_nodes (bind_vars vars k x env) x body) rest)
                 elems ([], None)))"
| "exec_nodes env dot [] = ([], None)"
| "exec_nodes env dot (n # ns) = seq_output (exec_node env dot n) (exec_nodes env dot ns)"

section \<open>Rendering: renderDOT and DOT\<close>

text \<open>What the template sees of a description: its exported fields, by name.\<close>

definition reflect_iface :: "key option \<Rightarrow> val" where
  "reflect_iface i = (case i of None \<Rightarrow> VNil | Some k \<Rightarrow> VKey k)"

definition reflect_statement :: "statement \<Rightarrow> val" where
  "reflect_statement s =
     VStruct [(''Source'', reflect_iface (Source s)),
              (''Target'', reflect_iface (Target s)),
              (''Weight'', VInt (Weight s)),
              (''Attributes'', VMap (map (\<lambda>(k, v). (k, VStr v)) (Attributes s)))]"

definition reflect_description :: "description \<Rightarrow> val" where
  "reflect_description d =
     VStruct [(''GraphType'', VStr (GraphType d)),
              (''EdgeOperator'', VStr (EdgeOperator d)),
              (''Statements'', VSlice (map reflect_statement (Statements d)))]"

text \<open>
  An \<open>io.Writer\<close> is a state \<open>'w\<close> and its \<open>Write\<close> method, which returns the state after
  the call and an error or none. Writing stops at the first error.
\<close>

type_synonym 'w writer = "'w \<Rightarrow> string \<Rightarrow> error option \<times> 'w"

fun write_all :: "'w writer \<Rightarrow> 'w \<Rightarrow> string list \<Rightarrow> error option \<times> 'w" where
  "write_all wr w [] = (None, w)"
| "write_all wr w (c # cs) =
     (case wr w c of
        (Some err, w') \<Rightarrow> (Some err, w')
      | (None, w') \<Rightarrow> write_all wr w' cs)"

text \<open>
  \<open>Execute\<close> starts with \<open>$\<close> bound to the data. The chunks that execution produced
  before it failed have been written by then, so a failing write comes first.
\<close>

definition Execute :: "'w writer \<Rightarrow> 'w \<Rightarrow> node list \<Rightarrow> val \<Rightarrow> error option \<times> 'w" where
  "Execute wr w tpl data =
     (case exec_nodes [([], data)] data tpl of
        (chunks, err) \<Rightarrow>
          (case write_all wr w chunks of
             (Some werr, w') \<Rightarrow> (Some werr, w')
           | (None, w') \<Rightarrow> (map_option TemplateExec err, w')))"

definition renderDOT :: "'w writer \<Rightarrow> 'w \<Rightarrow> description \<Rightarrow> error option \<times> 'w" where
  "renderDOT wr w d =
     (case parse_template dotTemplate of
        Inl err \<Rightarrow> (Some (Wrapped ''failed to parse template: '' (TemplateParse err)), w)
      | Inr tpl \<Rightarrow> Execute wr w tpl (reflect_description d))"

definition DOT :: "'w writer \<Rightarrow> Graph \<Rightarrow> 'w \<Rightarrow> error option \<times> 'w" where
  "DOT wr g w =
     (case generateDOT g of
        (desc, Some err) \<Rightarrow> (Some (Wrapped ''failed to generate DOT description: '' err), w)
      | (desc, None) \<Rightarrow> renderDOT wr w desc)"

text \<open>A writer that never fails and keeps the bytes, as a \<open>bytes.Buffer\<close> does.\<close>

definition buffer_write :: "string writer" where
  "buffer_write w c = (None, w @ c)"

text \<open>A writer that accepts a fixed number of calls and then fails, counting the calls.\<close>

definition limited_write :: "nat \<Rightarrow> (nat \<times> string) writer" where
  "limited_write limit w c =
     (if fst w < limit then (None, (Suc (fst w), snd w @ c))
      else (Some (External ''write failed''), (Suc (fst w), snd w)))"

section \<open>Reading the template by hand\<close>

text \<open>
  The syntax tree of \<open>dotTemplate\<close>, in three pieces: the body of the loop over the
  attributes, the body of the loop over the statements (the third line of the template),
  and the whole. That the parser yields this tree is proved below.
\<close>

definition attribute_nodes :: "node list" where
  "attribute_nodes =
     [PrintNode (VarFields ''k'' []), TextNode [CHR ''='', CHR 0x22],
      PrintNode (VarFields ''v'' []), TextNode [CHR 0x22, CHR '','', CHR '' '']]"

definition statement_nodes :: "node list" where
  "statement_nodes =
     [TextNode [CHR ''\<newline>'', CHR 0x09], PrintNode (DotFields [''Source'']),
      TextNode '' '',
      IfNode (DotFields [''Target''])
       [PrintNode (VarFields [] [''EdgeOperator'']), TextNode '' '',
        PrintNode (DotFields [''Target'']), TextNode '' [ '',
        RangeNode [''k'', ''v''] (DotFields [''Attributes'']) attribute_nodes,
        TextNode '' weight='', PrintNode (DotFields [''Weight'']),
        TextNode '' ]''],
      TextNode '';\<newline>'']"

definition dot_nodes :: "node list" where
  "dot_nodes =
     [TextNode ''strict '', PrintNode (DotFields [''GraphType'']),
      TextNode '' {\<newline>'',
      RangeNode [''s''] (DotFields [''Statements'']) statement_nodes,
      TextNode ''\<newline>}\<newline>'']"

text \<open>
  What the engine, running the loop body of the template, emits for one statement of a
  description: the dot is the statement, \<open>$s\<close> is the statement and \<open>$\<close> the description.
\<close>

definition statement_output :: "description \<Rightarrow> statement \<Rightarrow> exec_output" where
  "statement_output d s =
     exec_nodes [(''s'', reflect_statement s), ([], reflect_description d)]
       (reflect_statement s) statement_nodes"

text \<open>The bytes a description leaves in a buffer.\<close>

definition rendered :: "description \<Rightarrow> string" where
  "rendered d = snd (renderDOT buffer_write [] d)"

text \<open>
  The same, written out by hand from the template, with the edge operator as a parameter:
  how an \<open>interface{}\<close> field prints and tests, the chunks of the attribute loop, the
  chunks of one statement and its line.
\<close>

definition show_iface :: "key option \<Rightarrow> string" where
  "show_iface i = (case i of None \<Rightarrow> ''<no value>'' | Some k \<Rightarrow> show_key k)"

definition iface_truth :: "key option \<Rightarrow> bool" where
  "iface_truth i = (case i of None \<Rightarrow> False | Some k \<Rightarrow> key_truth k)"

definition attribute_chunks :: "attributes \<Rightarrow> string list" where
  "attribute_chunks a =
     concat (map (\<lambda>(k, v). [k, [CHR ''='', CHR 0x22], v, [CHR 0x22, CHR '','', CHR '' '']])
       (map_items a))"

definition statement_chunks :: "string \<Rightarrow> statement \<Rightarrow> string list" where
  "statement_chunks op s =
     [[CHR ''\<newline>'', CHR 0x09], show_iface (Source s), '' ''] @
     (if iface_truth (Target s)
      then [op, '' '', show_iface (Target s), '' [ ''] @ attribute_chunks (Attributes s) @
           ['' weight='', show_int (Weight s), '' ]'']
      else []) @
     ['';\<newline>'']"

definition statement_line :: "string \<Rightarrow> statement \<Rightarrow> string" where
  "statement_line op s = concat (statement_chunks op s)"

section \<open>The statements the specification asks for\<close>

text \<open>
  The specification's words for the statement builder: one edge statement for each
  adjacency entry, with the fields of the entry, and one statement without target for each
  vertex whose adjacency set is empty.
\<close>

definition edge_statement :: "key \<Rightarrow> key \<times> Edge \<Rightarrow> statement" where
  "edge_statement vertex entry =
     \<lparr>Source = Some vertex, Target = Some (fst entry),
      Weight = EdgeWeight (Properties (snd entry)),
      Attributes = EdgeAttributes (Properties (snd entry))\<rparr>"

definition isolated_statement :: "key \<Rightarrow> statement" where
  "isolated_statement vertex = \<lparr>Source = Some vertex, Target = None, Weight = 0, Attributes = []\<rparr>"

definition vertex_statements :: "key \<times> (key \<times> Edge) list \<Rightarrow> statement list" where
  "vertex_statements entry =
     (if snd entry = [] then [isolated_statement (fst entry)]
      else map (edge_statement (fst entry)) (snd entry))"

definition spec_statements :: "adjacency_map \<Rightarrow> statement list" where
  "spec_statements m = concat (map vertex_statements m)"


section \<open>Example inputs\<close>

text \<open>
  A directed graph on the integers 1, 2, 3: edges from 1 to 2 (weight 5, two attributes)
  and from 1 to 3 (weight 7, no attributes); 2 and 3 have no outgoing edges.
\<close>

definition example_adjacency :: adjacency_map where
  "example_adjacency =
     [(KInt 1, [(KInt 2, \<lparr>Properties = \<lparr>EdgeWeight = 5,
                   EdgeAttributes = [(''color'', ''red''), (''arrow'', ''no'')]\<rparr>\<rparr>),
                (KInt 3, \<lparr>Properties = \<lparr>EdgeWeight = 7, EdgeAttributes = []\<rparr>\<rparr>)]),
      (KInt 2, []),
      (KInt 3, [])]"

definition example_graph :: Graph where
  "example_graph = \<lparr>GraphTraits = Directed no_traits, AdjacencyMap = Inr example_adjacency\<rparr>"

text \<open>A graph whose \<open>AdjacencyMap\<close> call fails.\<close>

definition broken_graph :: Graph where
  "broken_graph =
     \<lparr>GraphTraits = no_traits, AdjacencyMap = Inl (External ''no adjacency map'')\<rparr>"

text \<open>A directed graph on the integers 0 and 1 with one edge, from 1 to 0, of weight 7.\<close>

definition zero_target_graph :: Graph where
  "zero_target_graph =
     \<lparr>GraphTraits = Directed no_traits,
      AdjacencyMap = Inr
        [(KInt 1, [(KInt 0, \<lparr>Properties = \<lparr>EdgeWeight = 7, EdgeAttributes = []\<rparr>\<rparr>)]),
         (KInt 0, [])]\<rparr>"

section \<open>Properties of the trait options\<close>

lemma option_sets_flags:
  assumes "f \<in> trait_options"
  shows "f t = \<lparr>IsDirected = IsDirected t \<or> IsDirected (f no_traits),
                IsAcyclic = IsAcyclic t \<or> IsAcyclic (f no_traits),
                IsWeighted = IsWeighted t \<or> IsWeighted (f no_traits),
                IsRooted = IsRooted t \<or> IsRooted (f no_traits)\<rparr>"
  using assms
  by (auto simp: trait_options_def Directed_def Acyclic_def Weighted_def Rooted_def Tree_def
      no_traits_def)

lemma apply_options_flags:
  assumes "set fs \<subseteq> trait_options"
  shows "apply_options fs t =
    \<lparr>IsDirected = IsDirected t \<or> (\<exists>f \<in> set fs. IsDirected (f no_traits)),
     IsAcyclic = IsAcyclic t \<or> (\<exists>f \<in> set fs. IsAcyclic (f no_traits)),
     IsWeighted = IsWeighted t \<or> (\<exists>f \<in> set fs. IsWeighted (f no_traits)),
     IsRooted = IsRooted t \<or> (\<exists>f \<in> set fs. IsRooted (f no_traits))\<rparr>"
  using assms
proof (induction fs arbitrary: t)
  case Nil
  show ?case by (simp add: apply_options_def)
next
  case (Cons f fs)
  have f: "f \<in> trait_options" and fs: "set fs \<subseteq> trait_options"
    using Cons.prems by auto
  have "apply_options (f # fs) t = apply_options fs (f t)"
    by (simp add: apply_options_def)
  also have "\<dots> =
    \<lparr>IsDirected = IsDirected (f t) \<or> (\<exists>g \<in> set fs. IsDirected (g no_traits)),
     IsAcyclic = IsAcyclic (f t) \<or> (\<exists>g \<in> set fs. IsAcyclic (g no_traits)),
     IsWeighted = IsWeighted (f t) \<or> (\<exists>g \<in> set fs. IsWeighted (g no_traits)),
     IsRooted = IsRooted (f t) \<or> (\<exists>g \<in> set fs. IsRooted (g no_traits))\<rparr>"
    by (rule Cons.IH [OF fs])
  also have "\<dots> =
    \<lparr>IsDirected = IsDirected t \<or> (\<exists>g \<in> set (f # fs). IsDirected (g no_traits)),
     IsAcyclic = IsAcyclic t \<or> (\<exists>g \<in> set (f # fs). IsAcyclic (g no_traits)),
     IsWeighted = IsWeighted t \<or> (\<exists>g \<in> set (f # fs). IsWeighted (g no_traits)),
     IsRooted = IsRooted t \<or> (\<exists>g \<in> set (f # fs). IsRooted (g no_traits))\<rparr>"
  proof -
    have "IsDirected (f t) = (IsDirected t \<or> IsDirected (f no_traits))"
      "IsAcyclic (f t) = (IsAcyclic t \<or> IsAcyclic (f no_traits))"
      "IsWeighted (f t) = (IsWeighted t \<or> IsWeighted (f no_traits))"
      "IsRooted (f t) = (IsRooted t \<or> IsRooted (f no_traits))"
      using option_sets_flags [OF f, of t] by (metis Traits.select_convs)+
    then show ?thesis by auto
  qed
  finally show ?case .
qed

text \<open>
  C7. \<open>Tree\<close> gives the same struct as \<open>Acyclic\<close> followed by \<open>Rooted\<close>, in either order:
  it sets the two flags \<open>IsAcyclic\<close> and \<open>IsRooted\<close> and leaves the other two as they were.
\<close>

theorem Tree_is_Acyclic_and_Rooted:
  "Tree t = Rooted (Acyclic t) \<and> Tree t = Acyclic (Rooted t) \<and>
   Tree t = apply_options [Acyclic, Rooted] t \<and>
   Tree t = \<lparr>IsDirected = IsDirected t, IsAcyclic = True,
             IsWeighted = IsWeighted t, IsRooted = True\<rparr>"
  by (simp add: Tree_def Rooted_def Acyclic_def apply_options_def)

text \<open>
  C8. Each of the five options only sets flags: a flag that is true stays true. So the
  struct reached by a sequence of options depends only on which options occur in it, not on
  their order or on how often each is repeated; in particular an option applied twice gives
  what it gives applied once.
\<close>

theorem options_monotone_idempotent_commutative:
  assumes "set fs \<subseteq> trait_options" and "set gs \<subseteq> trait_options"
  shows "(IsDirected t \<longrightarrow> IsDirected (apply_options fs t)) \<and>
         (IsAcyclic t \<longrightarrow> IsAcyclic (apply_options fs t)) \<and>
         (IsWeighted t \<longrightarrow> IsWeighted (apply_options fs t)) \<and>
         (IsRooted t \<longrightarrow> IsRooted (apply_options fs t)) \<and>
         (set fs = set gs \<longrightarrow> apply_options fs t = apply_options gs t) \<and>
         apply_options (fs @ fs) t = apply_options fs t \<and>
         apply_options (fs @ gs) t = apply_options (gs @ fs) t"
proof -
  have both: "set (fs @ gs) \<subseteq> trait_options" "set (gs @ fs) \<subseteq> trait_options"
    "set (fs @ fs) \<subseteq> trait_options"
    using assms by auto
  have mono: "(IsDirected t \<longrightarrow> IsDirected (apply_options fs t)) \<and>
         (IsAcyclic t \<longrightarrow> IsAcyclic (apply_options fs t)) \<and>
         (IsWeighted t \<longrightarrow> IsWeighted (apply_options fs t)) \<and>
         (IsRooted t \<longrightarrow> IsRooted (apply_options fs t))"
    by (simp add: apply_options_flags [OF assms(1)])
  have same: "set fs = set gs \<longrightarrow> apply_options fs t = apply_options gs t"
    by (simp add: apply_options_flags [OF assms(1)] apply_options_flags [OF assms(2)])
  have idem: "apply_options (fs @ fs) t = apply_options fs t"
    by (simp add: apply_options_flags [OF assms(1)] apply_options_flags [OF both(3)])
  have comm: "apply_options (fs @ gs) t = apply_options (gs @ fs) t"
    by (simp add: apply_options_flags [OF both(1)] apply_options_flags [OF both(2)] Un_commute)
  from mono same idem comm show ?thesis by blast
qed

theorem options_order_witness:
  "apply_options [Tree, Directed, Tree] no_traits = apply_options [Directed, Tree] no_traits \<and>
   apply_options [Directed, Tree] no_traits =
     \<lparr>IsDirected = True, IsAcyclic = True, IsWeighted = False, IsRooted = True\<rparr>"
proof -
  have a: "set [Tree, Directed, Tree] \<subseteq> trait_options"
    and b: "set [Directed, Tree] \<subseteq> trait_options"
    by (simp_all add: trait_options_def)
  have s: "set [Tree, Directed, Tree] = set [Directed, Tree]" by auto
  from options_monotone_idempotent_commutative [OF a b, of no_traits] s
  have "apply_options [Tree, Directed, Tree] no_traits = apply_options [Directed, Tree] no_traits"
    by blast
  moreover have "apply_options [Directed, Tree] no_traits =
     \<lparr>IsDirected = True, IsAcyclic = True, IsWeighted = False, IsRooted = True\<rparr>"
    by (simp add: apply_options_def Directed_def Tree_def Rooted_def Acyclic_def no_traits_def)
  ultimately show ?thesis by simp
qed

section \<open>The template engine on dotTemplate\<close>

lemma parse_dotTemplate: "parse_template dotTemplate = Inr dot_nodes"
  by (simp add: parse_template_def dotTemplate_def dot_nodes_def statement_nodes_def
      attribute_nodes_def parse_action_def parse_range_def is_name_def is_alnum_def)

lemma map_items_map:
  "map_items (map (\<lambda>(k, v). (k, g v)) m) = map (\<lambda>(k, v). (k, g v)) (map_items m)"
proof -
  have keys: "map fst (map (\<lambda>(k, v). (k, g v)) m) = map fst m"
    by (induction m) auto
  have look: "map_of (map (\<lambda>(k, v). (k, g v)) m) k = map_option g (map_of m k)" for k
    by (induction m) auto
  show ?thesis
    unfolding map_items_def keys
    by (induction "sort (remdups (map fst m))")
       (auto simp: List.map_filter_def look split: option.splits)
qed

lemma print_iface: "print_val (reflect_iface i) = Inr (show_iface i)"
  by (cases i) (simp_all add: reflect_iface_def show_iface_def)

lemma truth_iface: "truth (reflect_iface i) = iface_truth i"
  by (cases i) (simp_all add: reflect_iface_def iface_truth_def)

lemma attribute_items_output:
  "foldr (\<lambda>(k, x) rest. seq_output
       (exec_nodes ((''v'', x) # (''k'', k) # env) x attribute_nodes) rest)
     (map (\<lambda>(k, v). (VStr k, VStr v)) items) ([], None)
   = (concat (map (\<lambda>(k, v). [k, [CHR ''='', CHR 0x22], v, [CHR 0x22, CHR '','', CHR '' '']])
        items), None)"
  by (induction items) (auto simp: attribute_nodes_def)

lemma attributes_output:
  "exec_node env (reflect_statement s)
     (RangeNode [''k'', ''v''] (DotFields [''Attributes'']) attribute_nodes)
   = (attribute_chunks (Attributes s), None)"
proof -
  have "map (\<lambda>(k, v). (VStr k, v)) (map_items (map (\<lambda>(k, v). (k, VStr v)) (Attributes s))) =
        map (\<lambda>(k, v). (VStr k, VStr v)) (map_items (Attributes s))"
    unfolding map_items_map by (simp add: case_prod_beta)
  then show ?thesis
    by (simp add: reflect_statement_def attribute_items_output attribute_chunks_def)
qed

lemma statement_output_eq:
  "statement_output d s = (statement_chunks (EdgeOperator d) s, None)"
proof -
  have fields: "eval_expr env (reflect_statement s) (DotFields [''Source'']) =
          Inr (reflect_iface (Source s))"
       "eval_expr env (reflect_statement s) (DotFields [''Target'']) =
          Inr (reflect_iface (Target s))"
       "eval_expr env (reflect_statement s) (DotFields [''Weight'']) = Inr (VInt (Weight s))"
    for env
    by (simp_all add: reflect_statement_def)
  have op: "eval_expr [(''s'', reflect_statement s), ([], reflect_description d)]
       (reflect_statement s) (VarFields [] [''EdgeOperator'']) = Inr (VStr (EdgeOperator d))"
    by (simp add: reflect_description_def)
  show ?thesis
    unfolding statement_output_def statement_nodes_def statement_chunks_def
    by (simp add: fields op print_iface truth_iface attributes_output
        del: exec_node.simps(4) eval_expr.simps)
qed

lemma dot_output:
  "exec_nodes [([], reflect_description d)] (reflect_description d) dot_nodes =
     ([''strict '', GraphType d, '' {\<newline>''] @
      concat (map (statement_chunks (EdgeOperator d)) (Statements d)) @
      [''\<newline>}\<newline>''], None)"
proof -
  have loop: "foldr (\<lambda>(k, x) rest. seq_output
       (exec_nodes (bind_vars [''s''] k x [([], reflect_description d)]) x statement_nodes) rest)
       (zip ks (map reflect_statement ss)) ([], None) =
       (concat (map (statement_chunks (EdgeOperator d)) (take (length ks) ss)), None)" for ks ss
  proof (induction ss arbitrary: ks)
    case Nil
    show ?case by simp
  next
    case (Cons s ss)
    show ?case
    proof (cases ks)
      case Nil
      then show ?thesis by simp
    next
      case (Cons k ks')
      have "exec_nodes [(''s'', reflect_statement s), ([], reflect_description d)]
          (reflect_statement s) statement_nodes =
          (statement_chunks (EdgeOperator d) s, None)"
        using statement_output_eq [of d s] by (simp add: statement_output_def)
      then show ?thesis using Cons Cons.IH [of ks'] by simp
    qed
  qed
  have stmts: "exec_node [([], reflect_description d)] (reflect_description d)
       (RangeNode [''s''] (DotFields [''Statements'']) statement_nodes) =
       (concat (map (statement_chunks (EdgeOperator d)) (Statements d)), None)"
    using loop [of "map VInt (map int [0..<length (Statements d)])" "Statements d"]
    by (simp add: reflect_description_def)
  show ?thesis
    unfolding dot_nodes_def
    by (simp add: stmts del: exec_node.simps(4)) (simp add: reflect_description_def)
qed

text \<open>The chunks that rendering a description hands to the writer.\<close>

lemma renderDOT_writes:
  "renderDOT wr w d =
     write_all wr w ([''strict '', GraphType d, '' {\<newline>''] @
       concat (map (statement_chunks (EdgeOperator d)) (Statements d)) @ [''\<newline>}\<newline>''])"
  by (simp add: renderDOT_def parse_dotTemplate Execute_def dot_output split: prod.splits option.splits)

lemma write_all_buffer: "write_all buffer_write w cs = (None, w @ concat cs)"
  by (induction cs arbitrary: w) (simp_all add: buffer_write_def)

lemma rendered_eq:
  "rendered d = ''strict '' @ GraphType d @ '' {\<newline>'' @
     concat (map (statement_line (EdgeOperator d)) (Statements d)) @ ''\<newline>}\<newline>''"
proof -
  have "concat (concat (map (statement_chunks op) ss)) = concat (map (statement_line op) ss)"
    for op ss
    by (induction ss) (simp_all add: statement_line_def)
  then show ?thesis
    unfolding rendered_def renderDOT_writes write_all_buffer by simp
qed



section \<open>Properties of generateDOT\<close>

lemma append_edges_eq:
  "append_edges v adjs desc = desc\<lparr>Statements := Statements desc @ map (edge_statement v) adjs\<rparr>"
  by (induction v adjs desc rule: append_edges.induct) (simp_all add: edge_statement_def)

lemma append_vertices_eq:
  "append_vertices m desc = desc\<lparr>Statements := Statements desc @ spec_statements m\<rparr>"
proof (induction m desc rule: append_vertices.induct)
  case (1 desc)
  show ?case by (simp add: spec_statements_def)
next
  case (2 vertex adjacencies rest desc)
  show ?case
  proof (cases "adjacencies = []")
    case True
    with 2 show ?thesis
      by (simp add: spec_statements_def vertex_statements_def isolated_statement_def)
  next
    case False
    with 2 show ?thesis
      by (simp add: spec_statements_def vertex_statements_def append_edges_eq)
  qed
qed

lemma generateDOT_ok:
  assumes "AdjacencyMap g = Inr m"
  shows "generateDOT g =
    (\<lparr>GraphType = (if IsDirected (GraphTraits g) then ''digraph'' else ''graph''),
      EdgeOperator = (if IsDirected (GraphTraits g) then ''->'' else ''--''),
      Statements = spec_statements m\<rparr>, None)"
  using assms by (simp add: generateDOT_def Let_def append_vertices_eq)

lemma generateDOT_error:
  assumes "AdjacencyMap g = Inl err"
  shows "generateDOT g =
    (\<lparr>GraphType = (if IsDirected (GraphTraits g) then ''digraph'' else ''graph''),
      EdgeOperator = (if IsDirected (GraphTraits g) then ''->'' else ''--''),
      Statements = []\<rparr>, Some err)"
  using assms by (simp add: generateDOT_def Let_def)

lemma filter_targets_vertex:
  "filter (\<lambda>s. Target s \<noteq> None) (vertex_statements e) = map (edge_statement (fst e)) (snd e)"
  "filter (\<lambda>s. Target s = None) (vertex_statements e) =
     (if snd e = [] then [isolated_statement (fst e)] else [])"
  by (simp_all add: vertex_statements_def isolated_statement_def edge_statement_def
      filter_empty_conv)



section \<open>The order of a map's entries\<close>








section \<open>Properties of the export\<close>

lemma example_graph_adjacency: "AdjacencyMap example_graph = Inr example_adjacency"
  by (simp add: example_graph_def)

lemma example_graph_directed: "IsDirected (GraphTraits example_graph)"
  by (simp add: example_graph_def Directed_def)

text \<open>
  C1. The description that \<open>generateDOT\<close> returns, with or without an error, has graph type
  \<open>digraph\<close> and edge operator \<open>->\<close> when the graph's \<open>IsDirected\<close> trait is set, and
  \<open>graph\<close> and \<open>--\<close> otherwise. The rendered text names that graph type in its header and
  renders every statement of the description with that one operator.
\<close>

theorem generateDOT_type_and_operator:
  "GraphType (fst (generateDOT g)) = (if IsDirected (GraphTraits g) then ''digraph'' else ''graph'') \<and>
   EdgeOperator (fst (generateDOT g)) = (if IsDirected (GraphTraits g) then ''->'' else ''--'') \<and>
   rendered (fst (generateDOT g)) =
     ''strict '' @ (if IsDirected (GraphTraits g) then ''digraph'' else ''graph'') @ '' {\<newline>'' @
     concat (map (statement_line (if IsDirected (GraphTraits g) then ''->'' else ''--''))
       (Statements (fst (generateDOT g)))) @ ''\<newline>}\<newline>''"
proof (cases "AdjacencyMap g")
  case (Inl err)
  show ?thesis unfolding rendered_eq by (simp add: generateDOT_error [OF Inl])
next
  case (Inr m)
  show ?thesis unfolding rendered_eq by (simp add: generateDOT_ok [OF Inr])
qed

theorem generateDOT_type_and_operator_witness:
  \<open>GraphType (fst (generateDOT example_graph)) = ''digraph'' \<and>
   EdgeOperator (fst (generateDOT example_graph)) = ''->'' \<and>
   rendered (fst (generateDOT example_graph)) =
     ''strict digraph {\<newline>'' @
     [CHR ''\<newline>'', CHR 0x09] @ ''1 -> 2 [ arrow="no", color="red",  weight=5 ];\<newline>'' @
     [CHR ''\<newline>'', CHR 0x09] @ ''1 -> 3 [  weight=7 ];\<newline>'' @
     [CHR ''\<newline>'', CHR 0x09] @ ''2 ;\<newline>'' @
     [CHR ''\<newline>'', CHR 0x09] @ ''3 ;\<newline>'' @
     ''\<newline>}\<newline>''\<close>
proof -
  have stmts: "Statements (fst (generateDOT example_graph)) = spec_statements example_adjacency"
    by (simp add: generateDOT_ok [OF example_graph_adjacency])
  show ?thesis
    using generateDOT_type_and_operator [of example_graph] example_graph_directed
    unfolding stmts
    by (simp add: spec_statements_def vertex_statements_def example_adjacency_def
        edge_statement_def isolated_statement_def statement_line_def statement_chunks_def
        iface_truth_def show_iface_def attribute_chunks_def map_items_def show_int_def
        show_nat.simps)
qed

text \<open>
  C2. Not every statement that has a target gets an edge line. For the
  directed graph with the single edge from 1 to 0 the statement of that edge has target 0,
  and the template's \<open>if .Target\<close> takes the integer 0 for an empty value: the line of the
  edge is the bare \<open>1 ;\<close>, without operator, target or weight.
\<close>

theorem edge_to_zero_key_rendered_without_target:
  "Statements (fst (generateDOT zero_target_graph)) =
     [\<lparr>Source = Some (KInt 1), Target = Some (KInt 0), Weight = 7, Attributes = []\<rparr>,
      \<lparr>Source = Some (KInt 0), Target = None, Weight = 0, Attributes = []\<rparr>] \<and>
   DOT buffer_write zero_target_graph [] =
     (None,
      ''strict digraph {\<newline>'' @
      [CHR ''\<newline>'', CHR 0x09] @ ''1 ;\<newline>'' @
      [CHR ''\<newline>'', CHR 0x09] @ ''0 ;\<newline>'' @
      ''\<newline>}\<newline>'')"
proof -
  have gen: "generateDOT zero_target_graph =
      (\<lparr>GraphType = ''digraph'', EdgeOperator = ''->'',
        Statements =
          [\<lparr>Source = Some (KInt 1), Target = Some (KInt 0), Weight = 7, Attributes = []\<rparr>,
           \<lparr>Source = Some (KInt 0), Target = None, Weight = 0, Attributes = []\<rparr>]\<rparr>, None)"
    by (simp add: generateDOT_def zero_target_graph_def Directed_def no_traits_def)
  have "DOT buffer_write zero_target_graph [] =
      renderDOT buffer_write [] (fst (generateDOT zero_target_graph))"
    unfolding DOT_def gen by simp
  also have "\<dots> = (None, rendered (fst (generateDOT zero_target_graph)))"
    unfolding rendered_def renderDOT_writes write_all_buffer by simp
  finally show ?thesis
    unfolding rendered_eq gen
    by (simp add: statement_line_def statement_chunks_def iface_truth_def
        show_iface_def show_int_def show_nat.simps)
qed



text \<open>
  C4. When the adjacency map is obtained, the statements of the description are, in the
  order of the map, for each vertex either its one statement without target (empty
  adjacency set) or one edge statement per adjacency entry, with the vertex as source and
  the entry's key, weight and attributes. So the statements with a target are exactly the
  edge statements of the entries, those without are exactly the statements of the vertices
  with empty adjacency sets, and the number of statements with a target is the total number
  of adjacency entries.
\<close>

theorem statements_are_spec_statements:
  assumes "AdjacencyMap g = Inr m"
  shows "snd (generateDOT g) = None \<and>
    Statements (fst (generateDOT g)) = spec_statements m \<and>
    filter (\<lambda>s. Target s \<noteq> None) (Statements (fst (generateDOT g))) =
      concat (map (\<lambda>e. map (edge_statement (fst e)) (snd e)) m) \<and>
    filter (\<lambda>s. Target s = None) (Statements (fst (generateDOT g))) =
      map (\<lambda>e. isolated_statement (fst e)) (filter (\<lambda>e. snd e = []) m) \<and>
    length (filter (\<lambda>s. Target s \<noteq> None) (Statements (fst (generateDOT g)))) =
      sum_list (map (\<lambda>e. length (snd e)) m)"
proof -
  have stmts: "Statements (fst (generateDOT g)) = spec_statements m"
    and noerr: "snd (generateDOT g) = None"
    by (simp_all add: generateDOT_ok [OF assms])
  have edges: "filter (\<lambda>s. Target s \<noteq> None) (spec_statements m) =
      concat (map (\<lambda>e. map (edge_statement (fst e)) (snd e)) m)"
    unfolding spec_statements_def
    by (induction m) (simp_all add: filter_targets_vertex del: not_None_eq)
  have isolated: "filter (\<lambda>s. Target s = None) (spec_statements m) =
      map (\<lambda>e. isolated_statement (fst e)) (filter (\<lambda>e. snd e = []) m)"
    unfolding spec_statements_def
    by (induction m) (simp_all add: filter_targets_vertex)
  have count: "length (concat (map (\<lambda>e. map (edge_statement (fst e)) (snd e)) m)) =
      sum_list (map (\<lambda>e. length (snd e)) m)"
    by (induction m) simp_all
  show ?thesis
    using noerr edges isolated count unfolding stmts by simp
qed

theorem statements_are_spec_statements_witness:
  "snd (generateDOT example_graph) = None \<and>
   Statements (fst (generateDOT example_graph)) =
     [\<lparr>Source = Some (KInt 1), Target = Some (KInt 2), Weight = 5,
       Attributes = [(''color'', ''red''), (''arrow'', ''no'')]\<rparr>,
      \<lparr>Source = Some (KInt 1), Target = Some (KInt 3), Weight = 7, Attributes = []\<rparr>,
      \<lparr>Source = Some (KInt 2), Target = None, Weight = 0, Attributes = []\<rparr>,
      \<lparr>Source = Some (KInt 3), Target = None, Weight = 0, Attributes = []\<rparr>] \<and>
   length (filter (\<lambda>s. Target s \<noteq> None) (Statements (fst (generateDOT example_graph)))) = 2"
  using statements_are_spec_statements [OF example_graph_adjacency]
  by (simp add: spec_statements_def vertex_statements_def example_adjacency_def
      edge_statement_def isolated_statement_def)

text \<open>
  C5. When the \<open>AdjacencyMap\<close> call of the graph returns an error, \<open>DOT\<close> returns that
  error wrapped in the message \<open>failed to generate DOT description: \<close> and leaves the
  sink as it was, for every writer: \<open>Write\<close> is not called.
\<close>

theorem DOT_adjacency_error:
  assumes "AdjacencyMap g = Inl err"
  shows "DOT wr g w = (Some (Wrapped ''failed to generate DOT description: '' err), w)"
  using assms by (simp add: DOT_def generateDOT_def Let_def)

theorem DOT_adjacency_error_witness:
  "DOT (limited_write 0) broken_graph (0, []) =
     (Some (Wrapped ''failed to generate DOT description: '' (External ''no adjacency map'')),
      (0, []))"
  using DOT_adjacency_error [of broken_graph "External ''no adjacency map''"
      "limited_write 0" "(0, [])"]
  by (simp add: broken_graph_def)








end
